theory Spec2Isabelle
  imports Main
begin

section \<open>Values shared with the libraries\<close>

text \<open>
  A Go \<open>error\<close> value. \<open>ErrorString m\<close> is what \<open>errors.New(m)\<close> and
  \<open>fmt.Errorf\<close> (after formatting) build inside the driver; \<open>ErrHostIsNotRunning\<close> is the
  exported value \<open>drivers.ErrHostIsNotRunning\<close>; \<open>ExternalError m\<close> is an error handed
  back by a collaborator (provider client, SSH library, file system) with message \<open>m\<close>.
  A nil error is \<open>None\<close> of \<open>error option\<close>.
\<close>

datatype error = ErrorString string | ErrHostIsNotRunning | ExternalError string

text \<open>\<open>err.Error()\<close>, which is what the verb \<open>%s\<close> prints for an error.\<close>

fun error_string :: "error \<Rightarrow> string" where
  "error_string (ErrorString m) = m"
| "error_string ErrHostIsNotRunning = ''Host is not running''"
| "error_string (ExternalError m) = m"

text \<open>The enumeration \<open>state.State\<close> of libmachine (\<open>state.None\<close> is \<open>NoState\<close> here).\<close>

datatype state = NoState | Running | Paused | Saved | Stopped | Stopping | Starting | Error | Timeout

text \<open>
  The provider client's result types, with the fields the driver reads:
  \<open>instance.Id\<close>, \<open>instance.IpV4\<close>, \<open>instance.Password\<close>, \<open>machine.Status\<close>,
  \<open>actionStatus.Error\<close>, \<open>actionStatus.ErrorCode\<close>, and the \<open>Id\<close> of a catalog entry.
\<close>

record VPSie =
  VPSie_Id :: string
  VPSie_IpV4 :: string
  VPSie_Password :: string
  VPSie_Status :: string

record ActionStatus =
  ActionStatus_Error :: bool
  ActionStatus_ErrorCode :: string

record Image =
  Image_Id :: string

record Datacenter =
  Datacenter_Id :: string

record Offer =
  Offer_Id :: string

text \<open>The request struct \<open>vpsie.CreateVPSie\<close> that \<open>Create\<close> fills in.\<close>

record CreateVPSieRequest =
  Hostname :: string
  OfferId :: string
  DatacenterId :: string
  OsId :: string

text \<open>\<open>vpsie.NewClient(clientId, clientSecret, true)\<close>: the handle is what it was built from.\<close>

datatype Client = NewClient string string bool

text \<open>An SSH client handle: user, address, port and the passwords of \<open>ssh.Auth\<close>.\<close>

record SshClient =
  ssh_user :: string
  ssh_address :: string
  ssh_port :: int
  ssh_passwords :: "string list"

section \<open>The outside world\<close>

text \<open>
  Every call that leaves the driver is appended to a trace, oldest first. The
  collaborators are black boxes: each answers as a function of the trace so far and of
  its arguments, so an answer may change from one call to the next (a machine that is
  \<open>Started\<close> for some polls and \<open>Running\<close> afterwards).
\<close>

datatype call =
    GetImagesCall
  | GetDatacentersCall
  | GetOffersCall
  | CreateVPSieCall CreateVPSieRequest
  | GetVPSieCall string
  | StartVPSieCall string
  | ShutdownVPSieCall string
  | DeleteVPSieCall string
  | RestartVPSieCall string
  | GenerateSSHKeyCall string
  | ReadFileCall string
  | SshNewClientCall string string int "string list"
  | SshOutputCall string

type_synonym trace = "call list"

record env =
  CreateVPSie :: "trace \<Rightarrow> Client \<Rightarrow> CreateVPSieRequest \<Rightarrow> error + VPSie"
  GetVPSie :: "trace \<Rightarrow> Client \<Rightarrow> string \<Rightarrow> error + VPSie"
  StartVPSie :: "trace \<Rightarrow> Client \<Rightarrow> string \<Rightarrow> error + string"
  ShutdownVPSie :: "trace \<Rightarrow> Client \<Rightarrow> string \<Rightarrow> error + ActionStatus"
  DeleteVPSie :: "trace \<Rightarrow> Client \<Rightarrow> string \<Rightarrow> error + string"
  RestartVPSie :: "trace \<Rightarrow> Client \<Rightarrow> string \<Rightarrow> error + string"
  GetImages :: "trace \<Rightarrow> Client \<Rightarrow> error + Image list"
  GetDatacenters :: "trace \<Rightarrow> Client \<Rightarrow> error + Datacenter list"
  GetOffers :: "trace \<Rightarrow> Client \<Rightarrow> error + Offer list"
  GenerateSSHKey :: "trace \<Rightarrow> string \<Rightarrow> error option"
  ReadFile :: "trace \<Rightarrow> string \<Rightarrow> error + string"
  JoinPath :: "string list \<Rightarrow> string"
  SshNewClient :: "trace \<Rightarrow> string \<Rightarrow> string \<Rightarrow> int \<Rightarrow> string list \<Rightarrow> error option"
  SshOutput :: "trace \<Rightarrow> SshClient \<Rightarrow> string \<Rightarrow> string \<times> error option"

definition count_create_calls :: "trace \<Rightarrow> nat" where
  "count_create_calls tr =
     length (filter (\<lambda>c. case c of CreateVPSieCall r \<Rightarrow> True | _ \<Rightarrow> False) tr)"

section \<open>The driver\<close>

definition defaultOfferID :: string where
  "defaultOfferID = ''9a0e49c6-9f22-11e3-8af5-005056aa8af7''"

definition defaultDatacenterID :: string where
  "defaultDatacenterID = ''55f06b85-c9ee-11e3-9845-005056aa8af7''"

definition defaultImageID :: string where
  "defaultImageID = ''75401d7d-d9d3-11e3-b135-005056aa8af7''"

definition SSHUser_const :: string where
  "SSHUser_const = ''root''"

definition SSHPort_const :: int where
  "SSHPort_const = 22"

text \<open>
  The struct \<open>Driver\<close>. The first six fields are those of the embedded
  \<open>drivers.BaseDriver\<close> that the driver touches; \<open>client\<close> is the lazily built provider
  client (\<open>None\<close> is the nil interface).

  A method with a pointer receiver takes the driver and the trace and returns its Go
  results together with the driver and the trace it leaves; a method that only reads
  takes the driver alone. A Go result pair \<open>(value, error)\<close> is a pair whose second
  component is an \<open>error option\<close>. Log output and \<open>ssh.SetDefaultClient\<close> do not
  reach any value below and are left out.
\<close>

record Driver =
  MachineName :: string
  StorePath :: string
  IPAddress :: string
  SSHUser :: string
  SSHPort :: int
  SSHKeyPath :: string
  ClientId :: string
  ClientSecret :: string
  ImageID :: string
  OfferID :: string
  DatacenterID :: string
  InstanceID :: string
  client :: "Client option"

definition NewDriver :: "string \<Rightarrow> string \<Rightarrow> Driver" where
  "NewDriver hostName storePath =
     \<lparr> MachineName = hostName, StorePath = storePath, IPAddress = '''',
       SSHUser = SSHUser_const, SSHPort = SSHPort_const, SSHKeyPath = '''',
       ClientId = '''', ClientSecret = '''',
       ImageID = defaultImageID, OfferID = defaultOfferID, DatacenterID = defaultDatacenterID,
       InstanceID = '''', client = None \<rparr>"

subsection \<open>Getters of the embedded BaseDriver\<close>

text \<open>
  These three methods belong to libmachine's \<open>BaseDriver\<close>, outside the repository.
  Each fills in its field with the default when the field is still the zero value and
  returns the field; \<open>GetSSHPort\<close> never fails. The store path is
  \<open>filepath.Join(StorePath, "machines", MachineName, file)\<close>, with \<open>filepath.Join\<close>
  taken from the environment.
\<close>

definition ResolveStorePath :: "env \<Rightarrow> Driver \<Rightarrow> string \<Rightarrow> string" where
  "ResolveStorePath env d file = JoinPath env [StorePath d, ''machines'', MachineName d, file]"

definition GetSSHKeyPath :: "env \<Rightarrow> Driver \<Rightarrow> string \<times> Driver" where
  "GetSSHKeyPath env d =
     (if SSHKeyPath d = ''''
      then (ResolveStorePath env d ''id_rsa'', d\<lparr>SSHKeyPath := ResolveStorePath env d ''id_rsa''\<rparr>)
      else (SSHKeyPath d, d))"

definition GetSSHPort :: "Driver \<Rightarrow> (int \<times> error option) \<times> Driver" where
  "GetSSHPort d =
     (if SSHPort d = 0 then ((22, None), d\<lparr>SSHPort := 22\<rparr>) else ((SSHPort d, None), d))"

definition GetSSHUsername :: "Driver \<Rightarrow> string \<times> Driver" where
  "GetSSHUsername d =
     (if SSHUser d = '''' then (''root'', d\<lparr>SSHUser := ''root''\<rparr>) else (SSHUser d, d))"

subsection \<open>Address and provider client\<close>

definition GetIP :: "Driver \<Rightarrow> string \<times> error option" where
  "GetIP d =
     (if IPAddress d = '''' \<or> IPAddress d = ''0''
      then ('''', Some (ErrorString ''IP address is not set''))
      else (IPAddress d, None))"

definition GetSSHHostname :: "Driver \<Rightarrow> string \<times> error option" where
  "GetSSHHostname d = GetIP d"

definition DriverName :: "Driver \<Rightarrow> string" where
  "DriverName d = ''vpsie''"

definition getClient :: "Driver \<Rightarrow> Client \<times> Driver" where
  "getClient d =
     (case client d of
        None \<Rightarrow>
          (NewClient (ClientId d) (ClientSecret d) True,
           d\<lparr>client := Some (NewClient (ClientId d) (ClientSecret d) True)\<rparr>)
      | Some c \<Rightarrow> (c, d))"

subsection \<open>Catalog validation\<close>

text \<open>The three \<open>for ... range\<close> loops: true when the loop returns nil from inside.\<close>

fun image_loop :: "string \<Rightarrow> Image list \<Rightarrow> bool" where
  "image_loop x [] = False"
| "image_loop x (img # imgs) = (if Image_Id img = x then True else image_loop x imgs)"

fun datacenter_loop :: "string \<Rightarrow> Datacenter list \<Rightarrow> bool" where
  "datacenter_loop x [] = False"
| "datacenter_loop x (datacenter # datacenters) =
     (if Datacenter_Id datacenter = x then True else datacenter_loop x datacenters)"

fun offer_loop :: "string \<Rightarrow> Offer list \<Rightarrow> bool" where
  "offer_loop x [] = False"
| "offer_loop x (offer # offers) = (if Offer_Id offer = x then True else offer_loop x offers)"

definition validateImageID :: "env \<Rightarrow> Driver \<Rightarrow> trace \<Rightarrow> error option \<times> Driver \<times> trace" where
  "validateImageID env d tr =
     (case getClient d of (c, d1) \<Rightarrow>
        (case GetImages env tr c of
           Inl err \<Rightarrow> (Some err, d1, tr @ [GetImagesCall])
         | Inr images \<Rightarrow>
             (if image_loop (ImageID d1) images then None
              else Some (ErrorString (''Image ID '' @ ImageID d1 @ '' is invalid'')),
              d1, tr @ [GetImagesCall])))"

definition validateDatacenterID :: "env \<Rightarrow> Driver \<Rightarrow> trace \<Rightarrow> error option \<times> Driver \<times> trace" where
  "validateDatacenterID env d tr =
     (case getClient d of (c, d1) \<Rightarrow>
        (case GetDatacenters env tr c of
           Inl err \<Rightarrow> (Some err, d1, tr @ [GetDatacentersCall])
         | Inr datacenters \<Rightarrow>
             (if datacenter_loop (DatacenterID d1) datacenters then None
              else Some (ErrorString (''Datacenter ID '' @ DatacenterID d1 @ '' is invalid'')),
              d1, tr @ [GetDatacentersCall])))"

definition validateOfferID :: "env \<Rightarrow> Driver \<Rightarrow> trace \<Rightarrow> error option \<times> Driver \<times> trace" where
  "validateOfferID env d tr =
     (case getClient d of (c, d1) \<Rightarrow>
        (case GetOffers env tr c of
           Inl err \<Rightarrow> (Some err, d1, tr @ [GetOffersCall])
         | Inr offers \<Rightarrow>
             (if offer_loop (OfferID d1) offers then None
              else Some (ErrorString (''Offer ID '' @ OfferID d1 @ '' is invalid'')),
              d1, tr @ [GetOffersCall])))"

definition PreCreateCheck :: "env \<Rightarrow> Driver \<Rightarrow> trace \<Rightarrow> error option \<times> Driver \<times> trace" where
  "PreCreateCheck env d tr =
     (case validateImageID env d tr of
        (Some err, d1, tr1) \<Rightarrow> (Some err, d1, tr1)
      | (None, d1, tr1) \<Rightarrow>
          (case validateDatacenterID env d1 tr1 of
             (Some err, d2, tr2) \<Rightarrow> (Some err, d2, tr2)
           | (None, d2, tr2) \<Rightarrow>
               (case validateOfferID env d2 tr2 of
                  (Some err, d3, tr3) \<Rightarrow> (Some err, d3, tr3)
                | (None, d3, tr3) \<Rightarrow> (None, d3, tr3))))"

subsection \<open>State, URL and the lifecycle actions\<close>

definition GetState :: "env \<Rightarrow> Driver \<Rightarrow> trace \<Rightarrow> (state \<times> error option) \<times> Driver \<times> trace" where
  "GetState env d tr =
     (case getClient d of (c, d1) \<Rightarrow>
        (case GetVPSie env tr c (InstanceID d1) of
           Inl err \<Rightarrow> ((Error, Some err), d1, tr @ [GetVPSieCall (InstanceID d1)])
         | Inr machine \<Rightarrow>
             (if VPSie_Status machine = ''Started'' then (Starting, None)
              else if VPSie_Status machine = ''Running'' then (Running, None)
              else if VPSie_Status machine = ''Stopped'' then (Stopped, None)
              else (Error, None),
              d1, tr @ [GetVPSieCall (InstanceID d1)])))"

definition GetURL :: "env \<Rightarrow> Driver \<Rightarrow> trace \<Rightarrow> (string \<times> error option) \<times> Driver \<times> trace" where
  "GetURL env d tr =
     (case GetState env d tr of ((s, serr), d1, tr1) \<Rightarrow>
        (case serr of
           Some err \<Rightarrow> (('''', Some err), d1, tr1)
         | None \<Rightarrow>
             (if s \<noteq> Running then (('''', Some ErrHostIsNotRunning), d1, tr1)
              else (case GetIP d1 of
                      (ip, Some err) \<Rightarrow> (('''', Some err), d1, tr1)
                    | (ip, None) \<Rightarrow> ((''tcp://'' @ ip @ '':2376'', None), d1, tr1)))))"

definition Start :: "env \<Rightarrow> Driver \<Rightarrow> trace \<Rightarrow> error option \<times> Driver \<times> trace" where
  "Start env d tr =
     (case getClient d of (c, d1) \<Rightarrow>
        (case StartVPSie env tr c (InstanceID d1) of
           Inl err \<Rightarrow> (Some err, d1, tr @ [StartVPSieCall (InstanceID d1)])
         | Inr status \<Rightarrow>
             (if status \<noteq> ''Started''
              then Some (ErrorString (''Invalid status '' @ status @ '' after start''))
              else None,
              d1, tr @ [StartVPSieCall (InstanceID d1)])))"

definition Stop :: "env \<Rightarrow> Driver \<Rightarrow> trace \<Rightarrow> error option \<times> Driver \<times> trace" where
  "Stop env d tr =
     (case getClient d of (c, d1) \<Rightarrow>
        (case ShutdownVPSie env tr c (InstanceID d1) of
           Inl err \<Rightarrow> (Some err, d1, tr @ [ShutdownVPSieCall (InstanceID d1)])
         | Inr actionStatus \<Rightarrow>
             (if ActionStatus_Error actionStatus
              then Some (ErrorString (ActionStatus_ErrorCode actionStatus))
              else None,
              d1, tr @ [ShutdownVPSieCall (InstanceID d1)])))"

definition Remove :: "env \<Rightarrow> Driver \<Rightarrow> trace \<Rightarrow> error option \<times> Driver \<times> trace" where
  "Remove env d tr =
     (case getClient d of (c, d1) \<Rightarrow>
        (case DeleteVPSie env tr c (InstanceID d1) of
           Inl err \<Rightarrow> (Some err, d1, tr @ [DeleteVPSieCall (InstanceID d1)])
         | Inr status \<Rightarrow>
             (if status \<noteq> ''Deleted''
              then Some (ErrorString (''Invalid status '' @ status @ '' after remove''))
              else None,
              d1, tr @ [DeleteVPSieCall (InstanceID d1)])))"

definition Restart :: "env \<Rightarrow> Driver \<Rightarrow> trace \<Rightarrow> error option \<times> Driver \<times> trace" where
  "Restart env d tr =
     (case getClient d of (c, d1) \<Rightarrow>
        (case RestartVPSie env tr c (InstanceID d1) of
           Inl err \<Rightarrow> (Some err, d1, tr @ [RestartVPSieCall (InstanceID d1)])
         | Inr status \<Rightarrow>
             (if status \<noteq> ''Restarted''
              then Some (ErrorString (''Invalid status '' @ status @ '' after restart''))
              else None,
              d1, tr @ [RestartVPSieCall (InstanceID d1)])))"

definition Kill :: "env \<Rightarrow> Driver \<Rightarrow> trace \<Rightarrow> error option \<times> Driver \<times> trace" where
  "Kill env d tr =
     (case getClient d of (c, d1) \<Rightarrow>
        (case ShutdownVPSie env tr c (InstanceID d1) of
           Inl err \<Rightarrow> (Some err, d1, tr @ [ShutdownVPSieCall (InstanceID d1)])
         | Inr actionStatus \<Rightarrow>
             (if ActionStatus_Error actionStatus
              then Some (ErrorString (ActionStatus_ErrorCode actionStatus))
              else None,
              d1, tr @ [ShutdownVPSieCall (InstanceID d1)])))"

subsection \<open>Key pair and SSH session\<close>

definition publicSSHKeyPath :: "env \<Rightarrow> Driver \<Rightarrow> string \<times> Driver" where
  "publicSSHKeyPath env d = (case GetSSHKeyPath env d of (path, d1) \<Rightarrow> (path @ ''.pub'', d1))"

text \<open>A byte slice is a \<open>string\<close> here (a \<open>char\<close> is a byte); the nil slice is \<open>[]\<close>.\<close>

definition createSSHKey :: "env \<Rightarrow> Driver \<Rightarrow> trace \<Rightarrow> (string \<times> error option) \<times> Driver \<times> trace" where
  "createSSHKey env d tr =
     (case GetSSHKeyPath env d of (path, d1) \<Rightarrow>
        (case GenerateSSHKey env tr path of
           Some err \<Rightarrow> (([], Some err), d1, tr @ [GenerateSSHKeyCall path])
         | None \<Rightarrow>
             (case publicSSHKeyPath env d1 of (pub, d2) \<Rightarrow>
                (case ReadFile env (tr @ [GenerateSSHKeyCall path]) pub of
                   Inl err \<Rightarrow>
                     (([], Some err), d2, tr @ [GenerateSSHKeyCall path, ReadFileCall pub])
                 | Inr publicKey \<Rightarrow>
                     ((publicKey, None), d2, tr @ [GenerateSSHKeyCall path, ReadFileCall pub])))))"

definition getSshClient ::
  "env \<Rightarrow> Driver \<Rightarrow> trace \<Rightarrow> string \<Rightarrow> (error + SshClient) \<times> Driver \<times> trace" where
  "getSshClient env d tr password =
     (case GetSSHHostname d of
        (address, Some err) \<Rightarrow> (Inl err, d, tr)
      | (address, None) \<Rightarrow>
          (case GetSSHPort d of
             ((port, Some err), d1) \<Rightarrow> (Inl err, d1, tr)
           | ((port, None), d1) \<Rightarrow>
               (case GetSSHUsername d1 of (user, d2) \<Rightarrow>
                  (case SshNewClient env tr user address port [password] of
                     Some err \<Rightarrow>
                       (Inl err, d2, tr @ [SshNewClientCall user address port [password]])
                   | None \<Rightarrow>
                       (Inr \<lparr> ssh_user = user, ssh_address = address, ssh_port = port,
                              ssh_passwords = [password] \<rparr>,
                        d2, tr @ [SshNewClientCall user address port [password]])))))"

definition runSshCommand ::
  "env \<Rightarrow> Driver \<Rightarrow> trace \<Rightarrow> string \<Rightarrow> string \<Rightarrow> (string \<times> error option) \<times> Driver \<times> trace" where
  "runSshCommand env d tr password cmd =
     (case getSshClient env d tr password of
        (Inl err, d1, tr1) \<Rightarrow> (('''', Some err), d1, tr1)
      | (Inr c, d1, tr1) \<Rightarrow> (SshOutput env tr1 c cmd, d1, tr1 @ [SshOutputCall cmd]))"

definition sshAvailableFunc ::
  "env \<Rightarrow> string \<Rightarrow> Driver \<Rightarrow> trace \<Rightarrow> bool \<times> Driver \<times> trace" where
  "sshAvailableFunc env password d tr =
     (case runSshCommand env d tr password ''exit 0'' of
        ((out, Some err), d1, tr1) \<Rightarrow> (False, d1, tr1)
      | ((out, None), d1, tr1) \<Rightarrow> (True, d1, tr1))"

subsection \<open>Polling\<close>

text \<open>
  Modelled from the spec: \<open>drivers.MachineInState\<close> and \<open>mcnutils.WaitFor\<close> are
  libmachine functions, outside the repository. The wait conditions of section 4.4
  poll on a fixed interval up to an overall timeout: the condition is tried at most
  60 times, the wait ends with nil at the first poll that holds, and with a timeout
  error when none did. The first condition holds when \<open>GetState\<close> reports the desired
  state (an error of the query counts as "not yet"). Sleeping between polls has no
  effect on the driver or on the trace.
\<close>

definition MachineInState ::
  "env \<Rightarrow> state \<Rightarrow> Driver \<Rightarrow> trace \<Rightarrow> bool \<times> Driver \<times> trace" where
  "MachineInState env desiredState d tr =
     (case GetState env d tr of ((currentState, err), d1, tr1) \<Rightarrow>
        (currentState = desiredState, d1, tr1))"

fun WaitForLoop ::
  "(Driver \<Rightarrow> trace \<Rightarrow> bool \<times> Driver \<times> trace) \<Rightarrow> nat \<Rightarrow> Driver \<Rightarrow> trace
     \<Rightarrow> bool \<times> Driver \<times> trace" where
  "WaitForLoop f 0 d tr = (False, d, tr)"
| "WaitForLoop f (Suc n) d tr =
     (case f d tr of
        (True, d1, tr1) \<Rightarrow> (True, d1, tr1)
      | (False, d1, tr1) \<Rightarrow> WaitForLoop f n d1 tr1)"

definition WaitFor ::
  "(Driver \<Rightarrow> trace \<Rightarrow> bool \<times> Driver \<times> trace) \<Rightarrow> Driver \<Rightarrow> trace
     \<Rightarrow> error option \<times> Driver \<times> trace" where
  "WaitFor f d tr =
     (case WaitForLoop f 60 d tr of
        (True, d1, tr1) \<Rightarrow> (None, d1, tr1)
      | (False, d1, tr1) \<Rightarrow>
          (Some (ExternalError ''Maximum number of retries (60) exceeded''), d1, tr1))"

subsection \<open>Create\<close>

definition addSshKeyToServer ::
  "env \<Rightarrow> Driver \<Rightarrow> trace \<Rightarrow> string \<Rightarrow> string \<Rightarrow> error option \<times> Driver \<times> trace" where
  "addSshKeyToServer env d tr password sshKey =
     (case WaitFor (MachineInState env Running) d tr of
        (Some err, d1, tr1) \<Rightarrow>
          (Some (ErrorString (''Error waiting for machine to be running: '' @ error_string err)),
           d1, tr1)
      | (None, d1, tr1) \<Rightarrow>
          (case WaitFor (sshAvailableFunc env password) d1 tr1 of
             (Some err, d2, tr2) \<Rightarrow>
               (Some (ErrorString (''Error waiting for ssh to be available: '' @ error_string err)),
                d2, tr2)
           | (None, d2, tr2) \<Rightarrow>
               (case runSshCommand env d2 tr2 password
                       (''mkdir ~/.ssh && echo '' @ [CHR 0x27] @ sshKey @ [CHR 0x27]
                          @ '' >> ~/.ssh/authorized_keys'') of
                  ((out, err), d3, tr3) \<Rightarrow> (err, d3, tr3))))"

definition Create :: "env \<Rightarrow> Driver \<Rightarrow> trace \<Rightarrow> error option \<times> Driver \<times> trace" where
  "Create env d tr =
     (case createSSHKey env d tr of
        ((sshKey, Some err), d1, tr1) \<Rightarrow> (Some err, d1, tr1)
      | ((sshKey, None), d1, tr1) \<Rightarrow>
          (case getClient d1 of (c, d2) \<Rightarrow>
             (case CreateVPSie env tr1 c
                     \<lparr> Hostname = MachineName d2, OfferId = OfferID d2,
                       DatacenterId = DatacenterID d2, OsId = ImageID d2 \<rparr> of
                Inl err \<Rightarrow>
                  (Some err, d2,
                   tr1 @ [CreateVPSieCall
                            \<lparr> Hostname = MachineName d2, OfferId = OfferID d2,
                              DatacenterId = DatacenterID d2, OsId = ImageID d2 \<rparr>])
              | Inr inst \<Rightarrow>
                  (case addSshKeyToServer env
                          (d2\<lparr>InstanceID := VPSie_Id inst, IPAddress := VPSie_IpV4 inst\<rparr>)
                          (tr1 @ [CreateVPSieCall
                                    \<lparr> Hostname = MachineName d2, OfferId = OfferID d2,
                                      DatacenterId = DatacenterID d2, OsId = ImageID d2 \<rparr>])
                          (VPSie_Password inst) sshKey of
                     (ignored, d3, tr3) \<Rightarrow> (None, d3, tr3)))))"

section \<open>A concrete environment\<close>

text \<open>
  A provider whose catalogs hold the three default identifiers, whose create call
  hands out machine \<open>42\<close> at \<open>10.0.0.7\<close>, whose machine is \<open>Running\<close> at once, and an
  SSH server that accepts every command.
\<close>

definition exampleEnv :: env where
  "exampleEnv =
     \<lparr> CreateVPSie = (\<lambda>tr c req. Inr \<lparr> VPSie_Id = ''42'', VPSie_IpV4 = ''10.0.0.7'',
                                        VPSie_Password = ''pw'', VPSie_Status = ''Started'' \<rparr>),
       GetVPSie = (\<lambda>tr c i. Inr \<lparr> VPSie_Id = i, VPSie_IpV4 = ''10.0.0.7'',
                                   VPSie_Password = '''', VPSie_Status = ''Running'' \<rparr>),
       StartVPSie = (\<lambda>tr c i. Inr ''Started''),
       ShutdownVPSie = (\<lambda>tr c i. Inr \<lparr> ActionStatus_Error = False,
                                        ActionStatus_ErrorCode = ''Stopped'' \<rparr>),
       DeleteVPSie = (\<lambda>tr c i. Inr ''Deleted''),
       RestartVPSie = (\<lambda>tr c i. Inr ''Restarted''),
       GetImages = (\<lambda>tr c. Inr [\<lparr> Image_Id = ''img-a'' \<rparr>, \<lparr> Image_Id = defaultImageID \<rparr>]),
       GetDatacenters = (\<lambda>tr c. Inr [\<lparr> Datacenter_Id = defaultDatacenterID \<rparr>,
                                      \<lparr> Datacenter_Id = ''dc-b'' \<rparr>]),
       GetOffers = (\<lambda>tr c. Inr [\<lparr> Offer_Id = defaultOfferID \<rparr>]),
       GenerateSSHKey = (\<lambda>tr path. None),
       ReadFile = (\<lambda>tr path. Inr ''ssh-rsa AAAA''),
       JoinPath = (\<lambda>parts. concat (map (\<lambda>p. CHR 0x2F # p) parts)),
       SshNewClient = (\<lambda>tr user address port passwords. None),
       SshOutput = (\<lambda>tr c cmd. ('''', None)) \<rparr>"

definition exampleDriver :: Driver where
  "exampleDriver = (NewDriver ''vm1'' ''store'')\<lparr>ClientId := ''id'', ClientSecret := ''secret''\<rparr>"

text \<open>The same SSH server, except that only \<open>exit 0\<close> succeeds: the append command fails.\<close>

definition appendFailsEnv :: env where
  "appendFailsEnv =
     exampleEnv\<lparr>SshOutput := (\<lambda>tr c cmd.
        if cmd = ''exit 0'' then ('''', None) else ('''', Some (ExternalError ''exit status 1'')))\<rparr>"

text \<open>A machine that never leaves \<open>Started\<close>, so the first wait runs out of polls.\<close>

definition neverRunningEnv :: env where
  "neverRunningEnv =
     exampleEnv\<lparr>GetVPSie := (\<lambda>tr c i. Inr \<lparr> VPSie_Id = i, VPSie_IpV4 = ''10.0.0.7'',
                                   VPSie_Password = '''', VPSie_Status = ''Started'' \<rparr>)\<rparr>"

text \<open>A provider that refuses to create the machine.\<close>

definition createFailsEnv :: env where
  "createFailsEnv = exampleEnv\<lparr>CreateVPSie := (\<lambda>tr c req. Inl (ExternalError ''quota exceeded''))\<rparr>"

text \<open>A configuration whose datacenter is in no catalog.\<close>

definition badDatacenterDriver :: Driver where
  "badDatacenterDriver = exampleDriver\<lparr>DatacenterID := ''nowhere''\<rparr>"

text \<open>A machine whose reported status is \<open>s\<close>, and a provider whose query fails.\<close>

definition statusEnv :: "string \<Rightarrow> env" where
  "statusEnv s =
     exampleEnv\<lparr>GetVPSie := (\<lambda>tr c i. Inr \<lparr> VPSie_Id = i, VPSie_IpV4 = ''10.0.0.7'',
                                   VPSie_Password = '''', VPSie_Status = s \<rparr>)\<rparr>"

definition queryFailsEnv :: env where
  "queryFailsEnv = exampleEnv\<lparr>GetVPSie := (\<lambda>tr c i. Inl (ExternalError ''not found''))\<rparr>"

text \<open>A guest whose SSH daemon never accepts a connection.\<close>

definition sshDownEnv :: env where
  "sshDownEnv =
     exampleEnv\<lparr>SshNewClient := (\<lambda>tr user address port passwords.
        Some (ExternalError ''connection refused''))\<rparr>"

text \<open>A provider that answers every lifecycle action with the given response.\<close>

definition shutdownEnv :: "ActionStatus \<Rightarrow> env" where
  "shutdownEnv a = exampleEnv\<lparr>ShutdownVPSie := (\<lambda>tr c i. Inr a)\<rparr>"

definition actionEnv :: "string \<Rightarrow> env" where
  "actionEnv s =
     exampleEnv\<lparr>StartVPSie := (\<lambda>tr c i. Inr s), DeleteVPSie := (\<lambda>tr c i. Inr s),
                 RestartVPSie := (\<lambda>tr c i. Inr s)\<rparr>"

definition actionFailsEnv :: env where
  "actionFailsEnv =
     exampleEnv\<lparr>StartVPSie := (\<lambda>tr c i. Inl (ExternalError ''unreachable'')),
                 ShutdownVPSie := (\<lambda>tr c i. Inl (ExternalError ''unreachable'')),
                 DeleteVPSie := (\<lambda>tr c i. Inl (ExternalError ''unreachable'')),
                 RestartVPSie := (\<lambda>tr c i. Inl (ExternalError ''unreachable''))\<rparr>"

text \<open>A key generator that fails.\<close>

definition keygenFailsEnv :: env where
  "keygenFailsEnv = exampleEnv\<lparr>GenerateSSHKey := (\<lambda>tr path. Some (ExternalError ''disk full''))\<rparr>"

text \<open>
  The driver and the trace at the moment \<open>Create\<close> of \<open>exampleDriver\<close> hands over to
  \<open>addSshKeyToServer\<close>: key pair written, machine \<open>42\<close> created and recorded.
\<close>

definition handoverDriver :: Driver where
  "handoverDriver =
     exampleDriver\<lparr>SSHKeyPath := ''/store/machines/vm1/id_rsa'',
                    client := Some (NewClient ''id'' ''secret'' True),
                    InstanceID := ''42'', IPAddress := ''10.0.0.7''\<rparr>"

definition handoverTrace :: trace where
  "handoverTrace =
     [GenerateSSHKeyCall ''/store/machines/vm1/id_rsa'',
      ReadFileCall ''/store/machines/vm1/id_rsa.pub'',
      CreateVPSieCall \<lparr> Hostname = ''vm1'', OfferId = defaultOfferID,
                        DatacenterId = defaultDatacenterID, OsId = defaultImageID \<rparr>]"

text \<open>A driver that was handed an address, and one with the sentinel address.\<close>

definition addressedDriver :: Driver where
  "addressedDriver = exampleDriver\<lparr>InstanceID := ''42'', IPAddress := ''10.0.0.7''\<rparr>"

definition sentinelDriver :: Driver where
  "sentinelDriver = exampleDriver\<lparr>InstanceID := ''42'', IPAddress := ''0''\<rparr>"

section \<open>Facts shared by the proofs\<close>

lemmas example_defs =
  exampleEnv_def exampleDriver_def NewDriver_def defaultImageID_def defaultOfferID_def
  defaultDatacenterID_def SSHUser_const_def SSHPort_const_def

text \<open>Building the provider client touches no field but \<open>client\<close>.\<close>

lemma getClient_keeps:
  "InstanceID (snd (getClient d)) = InstanceID d"
  "IPAddress (snd (getClient d)) = IPAddress d"
  "ImageID (snd (getClient d)) = ImageID d"
  "DatacenterID (snd (getClient d)) = DatacenterID d"
  "OfferID (snd (getClient d)) = OfferID d"
  "MachineName (snd (getClient d)) = MachineName d"
  by (simp_all add: getClient_def split: option.splits)

text \<open>Each catalog loop is a membership test on the identifiers.\<close>

lemma image_loop_iff: "image_loop x imgs = (\<exists>i\<in>set imgs. Image_Id i = x)"
  by (induction imgs) auto

lemma datacenter_loop_iff: "datacenter_loop x dcs = (\<exists>i\<in>set dcs. Datacenter_Id i = x)"
  by (induction dcs) auto

lemma offer_loop_iff: "offer_loop x offs = (\<exists>i\<in>set offs. Offer_Id i = x)"
  by (induction offs) auto

section \<open>GetIP and GetSSHHostname\<close>

text \<open>
  C6. \<open>GetIP\<close> returns an error (and the empty string) when the stored address is
  \<open>""\<close> or \<open>"0"\<close>, and returns the stored address unchanged, with a nil error, for
  every other string.
\<close>

theorem GetIP_unset_or_address:
  "(IPAddress d = '''' \<or> IPAddress d = ''0''
      \<longrightarrow> GetIP d = ('''', Some (ErrorString ''IP address is not set'')))
   \<and> (IPAddress d \<noteq> '''' \<and> IPAddress d \<noteq> ''0'' \<longrightarrow> GetIP d = (IPAddress d, None))"
  by (simp add: GetIP_def)

theorem GetIP_unset_or_address_witness:
  "GetIP exampleDriver = ('''', Some (ErrorString ''IP address is not set''))
   \<and> GetIP sentinelDriver = ('''', Some (ErrorString ''IP address is not set''))
   \<and> GetIP addressedDriver = (''10.0.0.7'', None)"
  using GetIP_unset_or_address [of exampleDriver] GetIP_unset_or_address [of sentinelDriver]
    GetIP_unset_or_address [of addressedDriver]
  by (simp add: example_defs sentinelDriver_def addressedDriver_def)

text \<open>
  C10. \<open>GetSSHHostname\<close> returns exactly the pair that \<open>GetIP\<close> returns, and it
  fails exactly when the stored address is \<open>""\<close> or the sentinel \<open>"0"\<close>.
\<close>

theorem GetSSHHostname_is_GetIP:
  "GetSSHHostname d = GetIP d
   \<and> ((snd (GetSSHHostname d) \<noteq> None) = (IPAddress d = '''' \<or> IPAddress d = ''0''))"
  by (simp add: GetSSHHostname_def GetIP_def)

theorem GetSSHHostname_is_GetIP_witness:
  "GetSSHHostname sentinelDriver = ('''', Some (ErrorString ''IP address is not set''))
   \<and> GetSSHHostname addressedDriver = (''10.0.0.7'', None)"
  using GetSSHHostname_is_GetIP [of sentinelDriver] GetSSHHostname_is_GetIP [of addressedDriver]
  by (simp add: GetIP_def example_defs sentinelDriver_def addressedDriver_def)

section \<open>GetState and GetURL\<close>

text \<open>
  C3. When the provider's query succeeds with status \<open>s\<close>, \<open>GetState\<close> returns
  \<open>Starting\<close> for \<open>"Started"\<close>, \<open>Running\<close> for \<open>"Running"\<close>, \<open>Stopped\<close> for
  \<open>"Stopped"\<close> and \<open>Error\<close> for every other \<open>s\<close>, each with a nil error; when the
  query fails it returns \<open>Error\<close> together with the query's error. So an \<open>Error\<close>
  state with a nil error is an unrecognised status, and one with an error is a failed query.
\<close>

theorem GetState_maps_status:
  "(GetVPSie env tr (fst (getClient d)) (InstanceID d) = Inr machine
      \<and> VPSie_Status machine = ''Started'' \<longrightarrow> fst (GetState env d tr) = (Starting, None))
   \<and> (GetVPSie env tr (fst (getClient d)) (InstanceID d) = Inr machine
      \<and> VPSie_Status machine = ''Running'' \<longrightarrow> fst (GetState env d tr) = (Running, None))
   \<and> (GetVPSie env tr (fst (getClient d)) (InstanceID d) = Inr machine
      \<and> VPSie_Status machine = ''Stopped'' \<longrightarrow> fst (GetState env d tr) = (Stopped, None))
   \<and> (GetVPSie env tr (fst (getClient d)) (InstanceID d) = Inr machine
      \<and> VPSie_Status machine \<notin> {''Started'', ''Running'', ''Stopped''}
      \<longrightarrow> fst (GetState env d tr) = (Error, None))
   \<and> (GetVPSie env tr (fst (getClient d)) (InstanceID d) = Inl err
      \<longrightarrow> fst (GetState env d tr) = (Error, Some err))"
  by (simp add: GetState_def getClient_def split: option.splits)

theorem GetState_maps_status_witness:
  "fst (GetState (statusEnv ''Started'') addressedDriver []) = (Starting, None)
   \<and> fst (GetState (statusEnv ''Running'') addressedDriver []) = (Running, None)
   \<and> fst (GetState (statusEnv ''Stopped'') addressedDriver []) = (Stopped, None)
   \<and> fst (GetState (statusEnv ''Deleted'') addressedDriver []) = (Error, None)
   \<and> fst (GetState queryFailsEnv addressedDriver []) = (Error, Some (ExternalError ''not found''))"
  using
    GetState_maps_status [of "statusEnv ''Started''" "[]" addressedDriver
      "\<lparr> VPSie_Id = ''42'', VPSie_IpV4 = ''10.0.0.7'', VPSie_Password = [],
         VPSie_Status = ''Started'' \<rparr>"]
    GetState_maps_status [of "statusEnv ''Running''" "[]" addressedDriver
      "\<lparr> VPSie_Id = ''42'', VPSie_IpV4 = ''10.0.0.7'', VPSie_Password = [],
         VPSie_Status = ''Running'' \<rparr>"]
    GetState_maps_status [of "statusEnv ''Stopped''" "[]" addressedDriver
      "\<lparr> VPSie_Id = ''42'', VPSie_IpV4 = ''10.0.0.7'', VPSie_Password = [],
         VPSie_Status = ''Stopped'' \<rparr>"]
    GetState_maps_status [of "statusEnv ''Deleted''" "[]" addressedDriver
      "\<lparr> VPSie_Id = ''42'', VPSie_IpV4 = ''10.0.0.7'', VPSie_Password = [],
         VPSie_Status = ''Deleted'' \<rparr>"]
    GetState_maps_status [of queryFailsEnv "[]" addressedDriver _ "ExternalError ''not found''"]
  by (simp add: statusEnv_def queryFailsEnv_def addressedDriver_def example_defs)

text \<open>
  C7. \<open>GetURL\<close> returns an error whenever \<open>GetState\<close> fails (that error) or yields a
  state other than \<open>Running\<close> (\<open>ErrHostIsNotRunning\<close>); when the state is \<open>Running\<close>
  and the address is set, it returns \<open>tcp://\<close>, the address, and \<open>:2376\<close>, with a nil
  error.
\<close>

theorem GetURL_only_when_running:
  "(fst (GetState env d tr) = (s, Some err) \<longrightarrow> fst (GetURL env d tr) = ('''', Some err))
   \<and> (fst (GetState env d tr) = (s, None) \<and> s \<noteq> Running
        \<longrightarrow> fst (GetURL env d tr) = ('''', Some ErrHostIsNotRunning))
   \<and> (fst (GetState env d tr) = (Running, None) \<and> IPAddress d \<noteq> '''' \<and> IPAddress d \<noteq> ''0''
        \<longrightarrow> fst (GetURL env d tr) = (''tcp://'' @ IPAddress d @ '':2376'', None))"
  by (simp add: GetURL_def GetState_def GetIP_def getClient_def
           split: option.splits sum.splits)

theorem GetURL_only_when_running_witness:
  "fst (GetURL queryFailsEnv addressedDriver []) = ('''', Some (ExternalError ''not found''))
   \<and> fst (GetURL (statusEnv ''Started'') addressedDriver []) = ('''', Some ErrHostIsNotRunning)
   \<and> fst (GetURL (statusEnv ''Stopped'') addressedDriver []) = ('''', Some ErrHostIsNotRunning)
   \<and> fst (GetURL (statusEnv ''Running'') addressedDriver []) = (''tcp://10.0.0.7:2376'', None)"
  using
    GetURL_only_when_running [of queryFailsEnv addressedDriver "[]" Error "ExternalError ''not found''"]
    GetURL_only_when_running [of "statusEnv ''Started''" addressedDriver "[]" Starting]
    GetURL_only_when_running [of "statusEnv ''Stopped''" addressedDriver "[]" Stopped]
    GetURL_only_when_running [of "statusEnv ''Running''" addressedDriver "[]" Running]
  by (simp add: GetState_def getClient_def statusEnv_def queryFailsEnv_def addressedDriver_def
        example_defs)

section \<open>Catalog validation\<close>

text \<open>
  C5. Given the catalog the provider returns, validation of the requested identifier
  succeeds if and only if some catalog entry carries that identifier; when none does,
  the error message is the fixed text around the requested identifier itself, character
  for character. This holds for images, datacenters and offers alike.
\<close>

theorem validate_iff_in_catalog:
  "(GetImages env tr (fst (getClient d)) = Inr imgs \<longrightarrow>
      ((fst (validateImageID env d tr) = None) = (\<exists>i \<in> set imgs. Image_Id i = ImageID d))
      \<and> ((\<forall>i \<in> set imgs. Image_Id i \<noteq> ImageID d) \<longrightarrow>
           fst (validateImageID env d tr)
             = Some (ErrorString (''Image ID '' @ ImageID d @ '' is invalid''))))
   \<and> (GetDatacenters env tr (fst (getClient d)) = Inr dcs \<longrightarrow>
      ((fst (validateDatacenterID env d tr) = None)
          = (\<exists>i \<in> set dcs. Datacenter_Id i = DatacenterID d))
      \<and> ((\<forall>i \<in> set dcs. Datacenter_Id i \<noteq> DatacenterID d) \<longrightarrow>
           fst (validateDatacenterID env d tr)
             = Some (ErrorString (''Datacenter ID '' @ DatacenterID d @ '' is invalid''))))
   \<and> (GetOffers env tr (fst (getClient d)) = Inr offs \<longrightarrow>
      ((fst (validateOfferID env d tr) = None) = (\<exists>i \<in> set offs. Offer_Id i = OfferID d))
      \<and> ((\<forall>i \<in> set offs. Offer_Id i \<noteq> OfferID d) \<longrightarrow>
           fst (validateOfferID env d tr)
             = Some (ErrorString (''Offer ID '' @ OfferID d @ '' is invalid''))))"
proof (intro conjI impI)
  assume "GetImages env tr (fst (getClient d)) = Inr imgs"
  then show "(fst (validateImageID env d tr) = None) = (\<exists>i \<in> set imgs. Image_Id i = ImageID d)"
    by (simp add: validateImageID_def getClient_def image_loop_iff split: option.splits)
next
  assume "GetImages env tr (fst (getClient d)) = Inr imgs"
    and "\<forall>i \<in> set imgs. Image_Id i \<noteq> ImageID d"
  then show "fst (validateImageID env d tr)
      = Some (ErrorString (''Image ID '' @ ImageID d @ '' is invalid''))"
    by (simp add: validateImageID_def getClient_def image_loop_iff split: option.splits)
next
  assume "GetDatacenters env tr (fst (getClient d)) = Inr dcs"
  then show "(fst (validateDatacenterID env d tr) = None)
      = (\<exists>i \<in> set dcs. Datacenter_Id i = DatacenterID d)"
    by (simp add: validateDatacenterID_def getClient_def datacenter_loop_iff split: option.splits)
next
  assume "GetDatacenters env tr (fst (getClient d)) = Inr dcs"
    and "\<forall>i \<in> set dcs. Datacenter_Id i \<noteq> DatacenterID d"
  then show "fst (validateDatacenterID env d tr)
      = Some (ErrorString (''Datacenter ID '' @ DatacenterID d @ '' is invalid''))"
    by (simp add: validateDatacenterID_def getClient_def datacenter_loop_iff split: option.splits)
next
  assume "GetOffers env tr (fst (getClient d)) = Inr offs"
  then show "(fst (validateOfferID env d tr) = None) = (\<exists>i \<in> set offs. Offer_Id i = OfferID d)"
    by (simp add: validateOfferID_def getClient_def offer_loop_iff split: option.splits)
next
  assume "GetOffers env tr (fst (getClient d)) = Inr offs"
    and "\<forall>i \<in> set offs. Offer_Id i \<noteq> OfferID d"
  then show "fst (validateOfferID env d tr)
      = Some (ErrorString (''Offer ID '' @ OfferID d @ '' is invalid''))"
    by (simp add: validateOfferID_def getClient_def offer_loop_iff split: option.splits)
qed

theorem validate_iff_in_catalog_witness:
  "fst (validateImageID exampleEnv exampleDriver []) = None
   \<and> fst (validateImageID exampleEnv (exampleDriver\<lparr>ImageID := ''img-z''\<rparr>) [])
       = Some (ErrorString ''Image ID img-z is invalid'')
   \<and> fst (validateDatacenterID exampleEnv exampleDriver []) = None
   \<and> fst (validateDatacenterID exampleEnv badDatacenterDriver [])
       = Some (ErrorString ''Datacenter ID nowhere is invalid'')
   \<and> fst (validateOfferID exampleEnv exampleDriver []) = None
   \<and> fst (validateOfferID exampleEnv (exampleDriver\<lparr>OfferID := ''''\<rparr>) [])
       = Some (ErrorString ''Offer ID  is invalid'')"
  using
    validate_iff_in_catalog [of exampleEnv "[]" exampleDriver
      "[\<lparr> Image_Id = ''img-a'' \<rparr>, \<lparr> Image_Id = defaultImageID \<rparr>]"
      "[\<lparr> Datacenter_Id = defaultDatacenterID \<rparr>, \<lparr> Datacenter_Id = ''dc-b'' \<rparr>]"
      "[\<lparr> Offer_Id = defaultOfferID \<rparr>]"]
    validate_iff_in_catalog [of exampleEnv "[]" "exampleDriver\<lparr>ImageID := ''img-z''\<rparr>"
      "[\<lparr> Image_Id = ''img-a'' \<rparr>, \<lparr> Image_Id = defaultImageID \<rparr>]"
      "[\<lparr> Datacenter_Id = defaultDatacenterID \<rparr>, \<lparr> Datacenter_Id = ''dc-b'' \<rparr>]"
      "[\<lparr> Offer_Id = defaultOfferID \<rparr>]"]
    validate_iff_in_catalog [of exampleEnv "[]" badDatacenterDriver
      "[\<lparr> Image_Id = ''img-a'' \<rparr>, \<lparr> Image_Id = defaultImageID \<rparr>]"
      "[\<lparr> Datacenter_Id = defaultDatacenterID \<rparr>, \<lparr> Datacenter_Id = ''dc-b'' \<rparr>]"
      "[\<lparr> Offer_Id = defaultOfferID \<rparr>]"]
    validate_iff_in_catalog [of exampleEnv "[]" "exampleDriver\<lparr>OfferID := ''''\<rparr>"
      "[\<lparr> Image_Id = ''img-a'' \<rparr>, \<lparr> Image_Id = defaultImageID \<rparr>]"
      "[\<lparr> Datacenter_Id = defaultDatacenterID \<rparr>, \<lparr> Datacenter_Id = ''dc-b'' \<rparr>]"
      "[\<lparr> Offer_Id = defaultOfferID \<rparr>]"]
  by (simp add: getClient_def badDatacenterDriver_def example_defs)

section \<open>Lifecycle actions\<close>

text \<open>
  C8. \<open>Stop\<close> and \<open>Kill\<close> are the same operation: for every environment, driver and
  trace they issue the same provider call (the shutdown action on the stored
  identifier) and return the same error, driver and trace.
\<close>

theorem Kill_is_Stop:
  "Kill env d tr = Stop env d tr
   \<and> snd (snd (Stop env d tr)) = tr @ [ShutdownVPSieCall (InstanceID d)]"
  by (simp add: Kill_def Stop_def getClient_def split: option.splits sum.splits)

theorem Kill_is_Stop_witness:
  "Kill exampleEnv addressedDriver [] = Stop exampleEnv addressedDriver []
   \<and> fst (Kill exampleEnv addressedDriver []) = None
   \<and> snd (snd (Kill exampleEnv addressedDriver [])) = [ShutdownVPSieCall ''42'']"
  using Kill_is_Stop [of exampleEnv addressedDriver "[]"]
  by (simp add: Stop_def getClient_def addressedDriver_def example_defs)

text \<open>
  C4 (as the code has it). \<open>Start\<close>, \<open>Restart\<close> and \<open>Remove\<close> succeed exactly when the
  provider call returns a status equal to \<open>"Started"\<close>, \<open>"Restarted"\<close> and
  \<open>"Deleted"\<close> respectively, and any other status yields an error naming it.
  \<open>Stop\<close> and \<open>Kill\<close> compare no status string: they succeed exactly when the
  \<open>Error\<close> flag of the shutdown response is false, and otherwise fail with the
  response's error code as message. A failed provider call is returned as it is.
\<close>

theorem lifecycle_success_criteria:
  "(StartVPSie env tr (fst (getClient d)) (InstanceID d) = Inr status \<longrightarrow>
      ((fst (Start env d tr) = None) = (status = ''Started''))
      \<and> (status \<noteq> ''Started'' \<longrightarrow>
           fst (Start env d tr)
             = Some (ErrorString (''Invalid status '' @ status @ '' after start''))))
   \<and> (RestartVPSie env tr (fst (getClient d)) (InstanceID d) = Inr status \<longrightarrow>
      ((fst (Restart env d tr) = None) = (status = ''Restarted''))
      \<and> (status \<noteq> ''Restarted'' \<longrightarrow>
           fst (Restart env d tr)
             = Some (ErrorString (''Invalid status '' @ status @ '' after restart''))))
   \<and> (DeleteVPSie env tr (fst (getClient d)) (InstanceID d) = Inr status \<longrightarrow>
      ((fst (Remove env d tr) = None) = (status = ''Deleted''))
      \<and> (status \<noteq> ''Deleted'' \<longrightarrow>
           fst (Remove env d tr)
             = Some (ErrorString (''Invalid status '' @ status @ '' after remove''))))
   \<and> (ShutdownVPSie env tr (fst (getClient d)) (InstanceID d) = Inr a \<longrightarrow>
      ((fst (Stop env d tr) = None) = (\<not> ActionStatus_Error a))
      \<and> ((fst (Kill env d tr) = None) = (\<not> ActionStatus_Error a))
      \<and> (ActionStatus_Error a \<longrightarrow>
           fst (Stop env d tr) = Some (ErrorString (ActionStatus_ErrorCode a))
           \<and> fst (Kill env d tr) = Some (ErrorString (ActionStatus_ErrorCode a))))
   \<and> (StartVPSie env tr (fst (getClient d)) (InstanceID d) = Inl err \<longrightarrow>
        fst (Start env d tr) = Some err)
   \<and> (RestartVPSie env tr (fst (getClient d)) (InstanceID d) = Inl err \<longrightarrow>
        fst (Restart env d tr) = Some err)
   \<and> (DeleteVPSie env tr (fst (getClient d)) (InstanceID d) = Inl err \<longrightarrow>
        fst (Remove env d tr) = Some err)
   \<and> (ShutdownVPSie env tr (fst (getClient d)) (InstanceID d) = Inl err \<longrightarrow>
        fst (Stop env d tr) = Some err \<and> fst (Kill env d tr) = Some err)"
  by (simp add: Start_def Restart_def Remove_def Stop_def Kill_def getClient_def
           split: option.splits)

theorem lifecycle_success_criteria_witness:
  "fst (Start (actionEnv ''Started'') addressedDriver []) = None
   \<and> fst (Start (actionEnv ''Running'') addressedDriver [])
       = Some (ErrorString ''Invalid status Running after start'')
   \<and> fst (Restart (actionEnv ''Restarted'') addressedDriver []) = None
   \<and> fst (Restart (actionEnv ''Started'') addressedDriver [])
       = Some (ErrorString ''Invalid status Started after restart'')
   \<and> fst (Remove (actionEnv ''Deleted'') addressedDriver []) = None
   \<and> fst (Remove (actionEnv ''deleted'') addressedDriver [])
       = Some (ErrorString ''Invalid status deleted after remove'')
   \<and> fst (Stop (shutdownEnv \<lparr>ActionStatus_Error = False, ActionStatus_ErrorCode = ''''\<rparr>)
             addressedDriver []) = None
   \<and> fst (Kill (shutdownEnv \<lparr>ActionStatus_Error = True, ActionStatus_ErrorCode = ''E42''\<rparr>)
             addressedDriver []) = Some (ErrorString ''E42'')
   \<and> fst (Start actionFailsEnv addressedDriver []) = Some (ExternalError ''unreachable'')
   \<and> fst (Stop actionFailsEnv addressedDriver []) = Some (ExternalError ''unreachable'')"
  using
    lifecycle_success_criteria [of "actionEnv ''Started''" "[]" addressedDriver "''Started''"]
    lifecycle_success_criteria [of "actionEnv ''Running''" "[]" addressedDriver "''Running''"]
    lifecycle_success_criteria [of "actionEnv ''Restarted''" "[]" addressedDriver "''Restarted''"]
    lifecycle_success_criteria [of "actionEnv ''Deleted''" "[]" addressedDriver "''Deleted''"]
    lifecycle_success_criteria [of "actionEnv ''deleted''" "[]" addressedDriver "''deleted''"]
    lifecycle_success_criteria [of
      "shutdownEnv \<lparr>ActionStatus_Error = False, ActionStatus_ErrorCode = ''''\<rparr>" "[]"
      addressedDriver _ "\<lparr>ActionStatus_Error = False, ActionStatus_ErrorCode = ''''\<rparr>"]
    lifecycle_success_criteria [of
      "shutdownEnv \<lparr>ActionStatus_Error = True, ActionStatus_ErrorCode = ''E42''\<rparr>" "[]"
      addressedDriver _ "\<lparr>ActionStatus_Error = True, ActionStatus_ErrorCode = ''E42''\<rparr>"]
    lifecycle_success_criteria [of actionFailsEnv "[]" addressedDriver _ _
      "ExternalError ''unreachable''"]
  by (simp add: getClient_def actionEnv_def shutdownEnv_def actionFailsEnv_def
        addressedDriver_def example_defs)

text \<open>
  C4 as stated fails for \<open>Stop\<close> and \<open>Kill\<close>: the only string of the shutdown response
  does not decide the outcome. Two different strings both succeed, and the string
  \<open>Stopped\<close> succeeds with the flag off and fails with the flag on.
\<close>

theorem Stop_outcome_not_decided_by_string:
  "fst (Stop (shutdownEnv \<lparr>ActionStatus_Error = False, ActionStatus_ErrorCode = ''Stopped''\<rparr>)
          addressedDriver []) = None
   \<and> fst (Stop (shutdownEnv \<lparr>ActionStatus_Error = False, ActionStatus_ErrorCode = ''Failed''\<rparr>)
          addressedDriver []) = None
   \<and> fst (Stop (shutdownEnv \<lparr>ActionStatus_Error = True, ActionStatus_ErrorCode = ''Stopped''\<rparr>)
          addressedDriver []) = Some (ErrorString ''Stopped'')
   \<and> fst (Kill (shutdownEnv \<lparr>ActionStatus_Error = False, ActionStatus_ErrorCode = ''Stopped''\<rparr>)
          addressedDriver []) = None
   \<and> fst (Kill (shutdownEnv \<lparr>ActionStatus_Error = False, ActionStatus_ErrorCode = ''Failed''\<rparr>)
          addressedDriver []) = None
   \<and> fst (Kill (shutdownEnv \<lparr>ActionStatus_Error = True, ActionStatus_ErrorCode = ''Stopped''\<rparr>)
          addressedDriver []) = Some (ErrorString ''Stopped'')"
  by (simp add: Stop_def Kill_def getClient_def shutdownEnv_def addressedDriver_def example_defs)

section \<open>Create\<close>

text \<open>
  What polling and the SSH session leave alone: the recorded identifier, the recorded
  address, and the number of provider create calls in the trace.
\<close>

lemma GetState_keeps:
  "InstanceID d = i \<and> IPAddress d = a \<and> count_create_calls tr = k \<Longrightarrow>
     (case GetState env d tr of (r, d1, tr1) \<Rightarrow>
        InstanceID d1 = i \<and> IPAddress d1 = a \<and> count_create_calls tr1 = k)"
  by (simp add: GetState_def getClient_def count_create_calls_def
           split: option.splits sum.splits)

lemma MachineInState_keeps:
  "InstanceID d = i \<and> IPAddress d = a \<and> count_create_calls tr = k \<Longrightarrow>
     (case MachineInState env s d tr of (b, d1, tr1) \<Rightarrow>
        InstanceID d1 = i \<and> IPAddress d1 = a \<and> count_create_calls tr1 = k)"
  using GetState_keeps [of d i a tr k env]
  by (simp add: MachineInState_def split: prod.splits)

lemma getSshClient_keeps:
  "InstanceID d = i \<and> IPAddress d = a \<and> count_create_calls tr = k \<Longrightarrow>
     (case getSshClient env d tr password of (r, d1, tr1) \<Rightarrow>
        InstanceID d1 = i \<and> IPAddress d1 = a \<and> count_create_calls tr1 = k)"
  by (simp add: getSshClient_def GetSSHHostname_def GetIP_def GetSSHPort_def GetSSHUsername_def
        count_create_calls_def split: option.splits)

lemma runSshCommand_keeps:
  "InstanceID d = i \<and> IPAddress d = a \<and> count_create_calls tr = k \<Longrightarrow>
     (case runSshCommand env d tr password cmd of (r, d1, tr1) \<Rightarrow>
        InstanceID d1 = i \<and> IPAddress d1 = a \<and> count_create_calls tr1 = k)"
  using getSshClient_keeps [of d i a tr k env password]
  by (auto simp: runSshCommand_def count_create_calls_def split: prod.splits sum.splits)

lemma sshAvailableFunc_keeps:
  "InstanceID d = i \<and> IPAddress d = a \<and> count_create_calls tr = k \<Longrightarrow>
     (case sshAvailableFunc env password d tr of (b, d1, tr1) \<Rightarrow>
        InstanceID d1 = i \<and> IPAddress d1 = a \<and> count_create_calls tr1 = k)"
  using runSshCommand_keeps [of d i a tr k env password "''exit 0''"]
  by (auto simp: sshAvailableFunc_def split: prod.splits option.splits)

lemma WaitForLoop_keeps:
  assumes step: "\<And>d tr. P d tr \<Longrightarrow> (case f d tr of (b, d1, tr1) \<Rightarrow> P d1 tr1)"
  shows "P d tr \<Longrightarrow> (case WaitForLoop f n d tr of (b, d1, tr1) \<Rightarrow> P d1 tr1)"
proof (induction n arbitrary: d tr)
  case 0
  then show ?case by simp
next
  case (Suc n)
  obtain b d1 tr1 where f: "f d tr = (b, d1, tr1)"
    by (cases "f d tr") auto
  with step [OF Suc.prems] have "P d1 tr1" by simp
  with Suc.IH [of d1 tr1] f show ?case by (cases b) simp_all
qed

lemma WaitFor_keeps:
  assumes step: "\<And>d tr. P d tr \<Longrightarrow> (case f d tr of (b, d1, tr1) \<Rightarrow> P d1 tr1)"
  shows "P d tr \<Longrightarrow> (case WaitFor f d tr of (e, d1, tr1) \<Rightarrow> P d1 tr1)"
  using WaitForLoop_keeps [of P f d tr 60, OF step]
  by (auto simp: WaitFor_def split: prod.splits bool.splits)

lemma addSshKeyToServer_keeps:
  assumes "InstanceID d = i \<and> IPAddress d = a \<and> count_create_calls tr = k"
  shows "case addSshKeyToServer env d tr password sshKey of (e, d1, tr1) \<Rightarrow>
           InstanceID d1 = i \<and> IPAddress d1 = a \<and> count_create_calls tr1 = k"
proof -
  let ?P = "\<lambda>d tr. InstanceID d = i \<and> IPAddress d = a \<and> count_create_calls tr = k"
  obtain e1 d1 tr1 where w1: "WaitFor (MachineInState env Running) d tr = (e1, d1, tr1)"
    by (cases "WaitFor (MachineInState env Running) d tr") auto
  have p1: "?P d1 tr1"
    using WaitFor_keeps [of ?P "MachineInState env Running" d tr] MachineInState_keeps assms w1
    by simp
  obtain e2 d2 tr2 where w2: "WaitFor (sshAvailableFunc env password) d1 tr1 = (e2, d2, tr2)"
    by (cases "WaitFor (sshAvailableFunc env password) d1 tr1") auto
  have p2: "?P d2 tr2"
    using WaitFor_keeps [of ?P "sshAvailableFunc env password" d1 tr1] sshAvailableFunc_keeps p1 w2
    by simp
  show ?thesis
    using w1 w2 p1 p2
      runSshCommand_keeps [of d2 i a tr2 k env password
        "''mkdir ~/.ssh && echo '' @ [CHR 0x27] @ sshKey @ [CHR 0x27]
           @ '' >> ~/.ssh/authorized_keys''"]
    by (auto simp: addSshKeyToServer_def split: prod.splits option.splits)
qed

lemma createSSHKey_keeps:
  "createSSHKey env d tr = (r, d1, tr1) \<Longrightarrow>
     InstanceID d1 = InstanceID d \<and> IPAddress d1 = IPAddress d
     \<and> MachineName d1 = MachineName d \<and> OfferID d1 = OfferID d
     \<and> DatacenterID d1 = DatacenterID d \<and> ImageID d1 = ImageID d
     \<and> count_create_calls tr1 = count_create_calls tr"
  by (auto simp: createSSHKey_def publicSSHKeyPath_def GetSSHKeyPath_def count_create_calls_def
        split: option.splits sum.splits if_splits)

lemma validate_keeps:
  "count_create_calls (snd (snd (validateImageID env d tr))) = count_create_calls tr"
  "count_create_calls (snd (snd (validateDatacenterID env d tr))) = count_create_calls tr"
  "count_create_calls (snd (snd (validateOfferID env d tr))) = count_create_calls tr"
  by (simp_all add: validateImageID_def validateDatacenterID_def validateOfferID_def
        getClient_def count_create_calls_def split: option.splits sum.splits)

text \<open>
  C9. When key generation fails, or when the provider's create call fails, \<open>Create\<close>
  returns that error and the stored identifier and address are what they were before;
  they are assigned (to the identifier and address of the created machine) only on the
  path where the create call returned successfully.
\<close>

theorem Create_records_only_after_create:
  "(createSSHKey env d tr = ((k, Some err), d1, tr1) \<longrightarrow>
      fst (Create env d tr) = Some err
      \<and> InstanceID (fst (snd (Create env d tr))) = InstanceID d
      \<and> IPAddress (fst (snd (Create env d tr))) = IPAddress d)
   \<and> (createSSHKey env d tr = ((k, None), d1, tr1)
       \<and> CreateVPSie env tr1 (fst (getClient d1))
            \<lparr> Hostname = MachineName d, OfferId = OfferID d,
              DatacenterId = DatacenterID d, OsId = ImageID d \<rparr> = Inl err \<longrightarrow>
      fst (Create env d tr) = Some err
      \<and> InstanceID (fst (snd (Create env d tr))) = InstanceID d
      \<and> IPAddress (fst (snd (Create env d tr))) = IPAddress d)
   \<and> (createSSHKey env d tr = ((k, None), d1, tr1)
       \<and> CreateVPSie env tr1 (fst (getClient d1))
            \<lparr> Hostname = MachineName d, OfferId = OfferID d,
              DatacenterId = DatacenterID d, OsId = ImageID d \<rparr> = Inr inst \<longrightarrow>
      InstanceID (fst (snd (Create env d tr))) = VPSie_Id inst
      \<and> IPAddress (fst (snd (Create env d tr))) = VPSie_IpV4 inst)"
proof (intro conjI impI)
  assume "createSSHKey env d tr = ((k, Some err), d1, tr1)"
  then show "fst (Create env d tr) = Some err"
    and "InstanceID (fst (snd (Create env d tr))) = InstanceID d"
    and "IPAddress (fst (snd (Create env d tr))) = IPAddress d"
    using createSSHKey_keeps [of env d tr "(k, Some err)" d1 tr1]
    by (simp_all add: Create_def)
next
  assume a: "createSSHKey env d tr = ((k, None), d1, tr1)
    \<and> CreateVPSie env tr1 (fst (getClient d1))
         \<lparr> Hostname = MachineName d, OfferId = OfferID d,
           DatacenterId = DatacenterID d, OsId = ImageID d \<rparr> = Inl err"
  obtain c d2 where g: "getClient d1 = (c, d2)"
    by (cases "getClient d1") auto
  have same: "MachineName d2 = MachineName d \<and> OfferID d2 = OfferID d
      \<and> DatacenterID d2 = DatacenterID d \<and> ImageID d2 = ImageID d
      \<and> InstanceID d2 = InstanceID d \<and> IPAddress d2 = IPAddress d"
    using a g createSSHKey_keeps [of env d tr "(k, None)" d1 tr1] getClient_keeps [of d1]
    by simp
  show "fst (Create env d tr) = Some err"
    and "InstanceID (fst (snd (Create env d tr))) = InstanceID d"
    and "IPAddress (fst (snd (Create env d tr))) = IPAddress d"
    using a g same by (simp_all add: Create_def)
next
  assume a: "createSSHKey env d tr = ((k, None), d1, tr1)
    \<and> CreateVPSie env tr1 (fst (getClient d1))
         \<lparr> Hostname = MachineName d, OfferId = OfferID d,
           DatacenterId = DatacenterID d, OsId = ImageID d \<rparr> = Inr inst"
  obtain c d2 where g: "getClient d1 = (c, d2)"
    by (cases "getClient d1") auto
  let ?req = "\<lparr> Hostname = MachineName d, OfferId = OfferID d,
                 DatacenterId = DatacenterID d, OsId = ImageID d \<rparr>"
  let ?d3 = "d2\<lparr>InstanceID := VPSie_Id inst, IPAddress := VPSie_IpV4 inst\<rparr>"
  have same: "MachineName d2 = MachineName d \<and> OfferID d2 = OfferID d
      \<and> DatacenterID d2 = DatacenterID d \<and> ImageID d2 = ImageID d"
    using a g createSSHKey_keeps [of env d tr "(k, None)" d1 tr1] getClient_keeps [of d1]
    by simp
  have "case addSshKeyToServer env ?d3 (tr1 @ [CreateVPSieCall ?req]) (VPSie_Password inst) k of
          (e, d4, tr4) \<Rightarrow> InstanceID d4 = VPSie_Id inst \<and> IPAddress d4 = VPSie_IpV4 inst
             \<and> count_create_calls tr4 = count_create_calls (tr1 @ [CreateVPSieCall ?req])"
    by (rule addSshKeyToServer_keeps) simp
  then show "InstanceID (fst (snd (Create env d tr))) = VPSie_Id inst"
    and "IPAddress (fst (snd (Create env d tr))) = VPSie_IpV4 inst"
    using a g same by (auto simp: Create_def split: prod.splits)
qed

lemmas create_defs =
  Create_def createSSHKey_def GetSSHKeyPath_def publicSSHKeyPath_def ResolveStorePath_def
  getClient_def addSshKeyToServer_def WaitFor_def MachineInState_def GetState_def
  sshAvailableFunc_def runSshCommand_def getSshClient_def GetSSHHostname_def GetIP_def
  GetSSHPort_def GetSSHUsername_def

theorem Create_records_only_after_create_witness:
  "fst (Create keygenFailsEnv addressedDriver []) = Some (ExternalError ''disk full'')
   \<and> InstanceID (fst (snd (Create keygenFailsEnv addressedDriver []))) = ''42''
   \<and> IPAddress (fst (snd (Create keygenFailsEnv addressedDriver []))) = ''10.0.0.7''
   \<and> fst (Create createFailsEnv exampleDriver []) = Some (ExternalError ''quota exceeded'')
   \<and> InstanceID (fst (snd (Create createFailsEnv exampleDriver []))) = ''''
   \<and> IPAddress (fst (snd (Create createFailsEnv exampleDriver []))) = ''''
   \<and> InstanceID (fst (snd (Create exampleEnv exampleDriver []))) = ''42''
   \<and> IPAddress (fst (snd (Create exampleEnv exampleDriver []))) = ''10.0.0.7''"
  using
    Create_records_only_after_create [of keygenFailsEnv addressedDriver "[]" "[]"
      "ExternalError ''disk full''"
      "addressedDriver\<lparr>SSHKeyPath := ''/store/machines/vm1/id_rsa''\<rparr>"
      "[GenerateSSHKeyCall ''/store/machines/vm1/id_rsa'']"]
    Create_records_only_after_create [of createFailsEnv exampleDriver "[]" "''ssh-rsa AAAA''"
      "ExternalError ''quota exceeded''"
      "exampleDriver\<lparr>SSHKeyPath := ''/store/machines/vm1/id_rsa''\<rparr>"
      "[GenerateSSHKeyCall ''/store/machines/vm1/id_rsa'',
        ReadFileCall ''/store/machines/vm1/id_rsa.pub'']"]
    Create_records_only_after_create [of exampleEnv exampleDriver "[]" "''ssh-rsa AAAA''" _
      "exampleDriver\<lparr>SSHKeyPath := ''/store/machines/vm1/id_rsa''\<rparr>"
      "[GenerateSSHKeyCall ''/store/machines/vm1/id_rsa'',
        ReadFileCall ''/store/machines/vm1/id_rsa.pub'']"
      "\<lparr> VPSie_Id = ''42'', VPSie_IpV4 = ''10.0.0.7'', VPSie_Password = ''pw'',
         VPSie_Status = ''Started'' \<rparr>"]
  by (simp add: createSSHKey_def GetSSHKeyPath_def publicSSHKeyPath_def ResolveStorePath_def
        getClient_def keygenFailsEnv_def createFailsEnv_def addressedDriver_def example_defs)

text \<open>
  C2 (as the code has it). \<open>PreCreateCheck\<close> issues no provider create call, and when
  the image passes and validation of the datacenter identifier fails it returns that
  error at once. \<open>Create\<close> itself validates nothing: it issues exactly one create call
  when the key pair could be made and none when it could not, whatever the catalogs hold.
\<close>

theorem PreCreateCheck_stops_before_create:
  "count_create_calls (snd (snd (PreCreateCheck env d tr))) = count_create_calls tr
   \<and> (validateImageID env d tr = (None, d1, tr1)
       \<and> validateDatacenterID env d1 tr1 = (Some err, d2, tr2)
       \<longrightarrow> PreCreateCheck env d tr = (Some err, d2, tr2))
   \<and> (createSSHKey env d tr = ((k, None), d3, tr3)
       \<longrightarrow> count_create_calls (snd (snd (Create env d tr))) = count_create_calls tr + 1)
   \<and> (createSSHKey env d tr = ((k, Some err), d3, tr3)
       \<longrightarrow> count_create_calls (snd (snd (Create env d tr))) = count_create_calls tr)"
proof (intro conjI impI)
  obtain e1 d1' tr1' where v1: "validateImageID env d tr = (e1, d1', tr1')"
    by (cases "validateImageID env d tr") auto
  obtain e2 d2' tr2' where v2: "validateDatacenterID env d1' tr1' = (e2, d2', tr2')"
    by (cases "validateDatacenterID env d1' tr1'") auto
  obtain e3 d3' tr3' where v3: "validateOfferID env d2' tr2' = (e3, d3', tr3')"
    by (cases "validateOfferID env d2' tr2'") auto
  have "count_create_calls tr1' = count_create_calls tr"
    using validate_keeps(1) [of env d tr] v1 by simp
  moreover have "count_create_calls tr2' = count_create_calls tr1'"
    using validate_keeps(2) [of env d1' tr1'] v2 by simp
  moreover have "count_create_calls tr3' = count_create_calls tr2'"
    using validate_keeps(3) [of env d2' tr2'] v3 by simp
  ultimately show "count_create_calls (snd (snd (PreCreateCheck env d tr))) = count_create_calls tr"
    using v1 v2 v3 by (simp add: PreCreateCheck_def split: option.splits)
next
  assume "validateImageID env d tr = (None, d1, tr1)
    \<and> validateDatacenterID env d1 tr1 = (Some err, d2, tr2)"
  then show "PreCreateCheck env d tr = (Some err, d2, tr2)"
    by (simp add: PreCreateCheck_def)
next
  assume a: "createSSHKey env d tr = ((k, None), d3, tr3)"
  obtain c d4 where g: "getClient d3 = (c, d4)"
    by (cases "getClient d3") auto
  let ?req = "\<lparr> Hostname = MachineName d4, OfferId = OfferID d4,
                 DatacenterId = DatacenterID d4, OsId = ImageID d4 \<rparr>"
  have n: "count_create_calls (tr3 @ [CreateVPSieCall ?req]) = count_create_calls tr + 1"
    using createSSHKey_keeps [OF a] by (simp add: count_create_calls_def)
  show "count_create_calls (snd (snd (Create env d tr))) = count_create_calls tr + 1"
  proof (cases "CreateVPSie env tr3 c ?req")
    case (Inl e)
    then show ?thesis using a g n by (simp add: Create_def)
  next
    case (Inr inst)
    have "case addSshKeyToServer env
                 (d4\<lparr>InstanceID := VPSie_Id inst, IPAddress := VPSie_IpV4 inst\<rparr>)
                 (tr3 @ [CreateVPSieCall ?req]) (VPSie_Password inst) k of
            (e, d5, tr5) \<Rightarrow> InstanceID d5 = VPSie_Id inst \<and> IPAddress d5 = VPSie_IpV4 inst
               \<and> count_create_calls tr5 = count_create_calls (tr3 @ [CreateVPSieCall ?req])"
      by (rule addSshKeyToServer_keeps) simp
    then show ?thesis using a g n Inr by (auto simp: Create_def split: prod.splits)
  qed
next
  assume a: "createSSHKey env d tr = ((k, Some err), d3, tr3)"
  then show "count_create_calls (snd (snd (Create env d tr))) = count_create_calls tr"
    using createSSHKey_keeps [OF a] by (simp add: Create_def)
qed

theorem PreCreateCheck_stops_before_create_witness:
  "PreCreateCheck exampleEnv badDatacenterDriver []
     = (Some (ErrorString ''Datacenter ID nowhere is invalid''),
        badDatacenterDriver\<lparr>client := Some (NewClient ''id'' ''secret'' True)\<rparr>,
        [GetImagesCall, GetDatacentersCall])
   \<and> count_create_calls (snd (snd (PreCreateCheck exampleEnv badDatacenterDriver []))) = 0
   \<and> count_create_calls (snd (snd (Create exampleEnv badDatacenterDriver []))) = 1
   \<and> count_create_calls (snd (snd (Create keygenFailsEnv badDatacenterDriver []))) = 0"
  using
    PreCreateCheck_stops_before_create [of exampleEnv badDatacenterDriver "[]"
      "badDatacenterDriver\<lparr>client := Some (NewClient ''id'' ''secret'' True)\<rparr>"
      "[GetImagesCall]"
      "ErrorString ''Datacenter ID nowhere is invalid''"
      "badDatacenterDriver\<lparr>client := Some (NewClient ''id'' ''secret'' True)\<rparr>"
      "[GetImagesCall, GetDatacentersCall]"
      "''ssh-rsa AAAA''"
      "badDatacenterDriver\<lparr>SSHKeyPath := ''/store/machines/vm1/id_rsa''\<rparr>"
      "[GenerateSSHKeyCall ''/store/machines/vm1/id_rsa'',
        ReadFileCall ''/store/machines/vm1/id_rsa.pub'']"]
    PreCreateCheck_stops_before_create [of keygenFailsEnv badDatacenterDriver "[]" _ _
      "ExternalError ''disk full''" _ _ "[]"
      "badDatacenterDriver\<lparr>SSHKeyPath := ''/store/machines/vm1/id_rsa''\<rparr>"
      "[GenerateSSHKeyCall ''/store/machines/vm1/id_rsa'']"]
  by (simp add: validateImageID_def validateDatacenterID_def createSSHKey_def GetSSHKeyPath_def
        publicSSHKeyPath_def ResolveStorePath_def getClient_def count_create_calls_def
        keygenFailsEnv_def badDatacenterDriver_def example_defs)

text \<open>
  C2 as stated fails: with a datacenter identifier that is in no catalog, so that its
  validation fails, \<open>Create\<close> still reaches the provider's create endpoint once, on a
  fresh driver and also right after the failed \<open>PreCreateCheck\<close>.
\<close>

theorem Create_reaches_provider_with_bad_datacenter:
  "fst (validateDatacenterID exampleEnv badDatacenterDriver [])
     = Some (ErrorString ''Datacenter ID nowhere is invalid'')
   \<and> fst (PreCreateCheck exampleEnv badDatacenterDriver [])
     = Some (ErrorString ''Datacenter ID nowhere is invalid'')
   \<and> count_create_calls (snd (snd (Create exampleEnv badDatacenterDriver []))) = 1
   \<and> count_create_calls
       (snd (snd (Create exampleEnv
          (fst (snd (PreCreateCheck exampleEnv badDatacenterDriver [])))
          (snd (snd (PreCreateCheck exampleEnv badDatacenterDriver [])))))) = 1"
  by (simp add: create_defs PreCreateCheck_def validateImageID_def validateDatacenterID_def
        count_create_calls_def badDatacenterDriver_def example_defs eval_nat_numeral)

text \<open>
  Once the provider's create call has succeeded, \<open>Create\<close> returns nil: the result of
  \<open>addSshKeyToServer\<close> is dropped, only its driver and trace are kept.
\<close>

lemma Create_nil_after_create_call:
  assumes "createSSHKey env d tr = ((k, None), d1, tr1)"
    and "getClient d1 = (c, d2)"
    and "CreateVPSie env tr1 c
           \<lparr> Hostname = MachineName d2, OfferId = OfferID d2,
             DatacenterId = DatacenterID d2, OsId = ImageID d2 \<rparr> = Inr inst"
  shows "Create env d tr =
           (None,
            snd (addSshKeyToServer env
                   (d2\<lparr>InstanceID := VPSie_Id inst, IPAddress := VPSie_IpV4 inst\<rparr>)
                   (tr1 @ [CreateVPSieCall
                             \<lparr> Hostname = MachineName d2, OfferId = OfferID d2,
                               DatacenterId = DatacenterID d2, OsId = ImageID d2 \<rparr>])
                   (VPSie_Password inst) k))"
  using assms by (simp add: Create_def split: prod.splits)

text \<open>
  C1 at three failing inputs. The provider creates machine \<open>42\<close>; then (1) the append
  command fails, (2) the machine never reports \<open>Running\<close>, (3) SSH never comes up. In
  each case \<open>addSshKeyToServer\<close>, run from the state in which \<open>Create\<close> calls it,
  returns an error, and \<open>Create\<close> returns nil with the driver and trace that
  \<open>addSshKeyToServer\<close> left.
\<close>

theorem Create_drops_key_installation_error:
  "fst (addSshKeyToServer appendFailsEnv handoverDriver handoverTrace ''pw'' ''ssh-rsa AAAA'')
     = Some (ExternalError ''exit status 1'')
   \<and> Create appendFailsEnv exampleDriver []
     = (None, snd (addSshKeyToServer appendFailsEnv handoverDriver handoverTrace
                     ''pw'' ''ssh-rsa AAAA''))
   \<and> fst (addSshKeyToServer neverRunningEnv handoverDriver handoverTrace ''pw'' ''ssh-rsa AAAA'')
     = Some (ErrorString
         ''Error waiting for machine to be running: Maximum number of retries (60) exceeded'')
   \<and> Create neverRunningEnv exampleDriver []
     = (None, snd (addSshKeyToServer neverRunningEnv handoverDriver handoverTrace
                     ''pw'' ''ssh-rsa AAAA''))
   \<and> fst (addSshKeyToServer sshDownEnv handoverDriver handoverTrace ''pw'' ''ssh-rsa AAAA'')
     = Some (ErrorString
         ''Error waiting for ssh to be available: Maximum number of retries (60) exceeded'')
   \<and> Create sshDownEnv exampleDriver []
     = (None, snd (addSshKeyToServer sshDownEnv handoverDriver handoverTrace
                     ''pw'' ''ssh-rsa AAAA''))"
proof (intro conjI)
  show "fst (addSshKeyToServer appendFailsEnv handoverDriver handoverTrace ''pw'' ''ssh-rsa AAAA'')
      = Some (ExternalError ''exit status 1'')"
    by (simp add: create_defs appendFailsEnv_def handoverDriver_def handoverTrace_def
          example_defs eval_nat_numeral)
  show "fst (addSshKeyToServer neverRunningEnv handoverDriver handoverTrace ''pw'' ''ssh-rsa AAAA'')
      = Some (ErrorString
          ''Error waiting for machine to be running: Maximum number of retries (60) exceeded'')"
    by (simp add: create_defs neverRunningEnv_def handoverDriver_def handoverTrace_def
          example_defs eval_nat_numeral)
  show "fst (addSshKeyToServer sshDownEnv handoverDriver handoverTrace ''pw'' ''ssh-rsa AAAA'')
      = Some (ErrorString
          ''Error waiting for ssh to be available: Maximum number of retries (60) exceeded'')"
    by (simp add: create_defs sshDownEnv_def handoverDriver_def handoverTrace_def
          example_defs eval_nat_numeral)
  have key: "createSSHKey env exampleDriver []
      = ((''ssh-rsa AAAA'', None),
         exampleDriver\<lparr>SSHKeyPath := ''/store/machines/vm1/id_rsa''\<rparr>,
         [GenerateSSHKeyCall ''/store/machines/vm1/id_rsa'',
          ReadFileCall ''/store/machines/vm1/id_rsa.pub''])"
    if "GenerateSSHKey env = GenerateSSHKey exampleEnv" "ReadFile env = ReadFile exampleEnv"
       "JoinPath env = JoinPath exampleEnv" for env
    using that
    by (simp add: createSSHKey_def GetSSHKeyPath_def publicSSHKeyPath_def ResolveStorePath_def
          example_defs)
  have client: "getClient (exampleDriver\<lparr>SSHKeyPath := ''/store/machines/vm1/id_rsa''\<rparr>)
      = (NewClient ''id'' ''secret'' True,
         exampleDriver\<lparr>SSHKeyPath := ''/store/machines/vm1/id_rsa'',
                        client := Some (NewClient ''id'' ''secret'' True)\<rparr>)"
    by (simp add: getClient_def example_defs)
  have run: "Create env exampleDriver []
      = (None, snd (addSshKeyToServer env handoverDriver handoverTrace ''pw'' ''ssh-rsa AAAA''))"
    if "GenerateSSHKey env = GenerateSSHKey exampleEnv" "ReadFile env = ReadFile exampleEnv"
       "JoinPath env = JoinPath exampleEnv" "CreateVPSie env = CreateVPSie exampleEnv" for env
    using Create_nil_after_create_call [OF key [OF that(1-3)] client, of
        "\<lparr> VPSie_Id = ''42'', VPSie_IpV4 = ''10.0.0.7'', VPSie_Password = ''pw'',
           VPSie_Status = ''Started'' \<rparr>"] that(4)
    by (simp add: handoverDriver_def handoverTrace_def example_defs)
  show "Create appendFailsEnv exampleDriver []
      = (None, snd (addSshKeyToServer appendFailsEnv handoverDriver handoverTrace
                      ''pw'' ''ssh-rsa AAAA''))"
    by (rule run) (simp_all add: appendFailsEnv_def)
  show "Create neverRunningEnv exampleDriver []
      = (None, snd (addSshKeyToServer neverRunningEnv handoverDriver handoverTrace
                      ''pw'' ''ssh-rsa AAAA''))"
    by (rule run) (simp_all add: neverRunningEnv_def)
  show "Create sshDownEnv exampleDriver []
      = (None, snd (addSshKeyToServer sshDownEnv handoverDriver handoverTrace
                      ''pw'' ''ssh-rsa AAAA''))"
    by (rule run) (simp_all add: sshDownEnv_def)
qed

end
